theory Spec2Isabelle
  imports Complex_Main
begin

section \<open>Data model of the PPO learner (ppo\_alogrithm.py)\<close>

text \<open>
  Python floats are modelled by real numbers extended with the IEEE special values that
  the performance tracker can produce: the initial best mean reward is \<open>-np.inf\<close>,
  \<open>np.mean\<close> of an empty list is \<open>nan\<close>, and a numpy division by zero gives an
  infinity or \<open>nan\<close> instead of raising. The sign of zero is not modelled. Rounding is
  modelled where a property depends on it, the decay of the entropy coefficient; elsewhere
  the arithmetic is the one of the reals.
\<close>

datatype xfloat = Num real | PosInf | NegInf | NaN

fun xsub :: "xfloat \<Rightarrow> xfloat \<Rightarrow> xfloat" where
  "xsub NaN y = NaN"
| "xsub x NaN = NaN"
| "xsub (Num a) (Num b) = Num (a - b)"
| "xsub (Num a) PosInf = NegInf"
| "xsub (Num a) NegInf = PosInf"
| "xsub PosInf PosInf = NaN"
| "xsub PosInf y = PosInf"
| "xsub NegInf NegInf = NaN"
| "xsub NegInf y = NegInf"

fun xdiv :: "xfloat \<Rightarrow> xfloat \<Rightarrow> xfloat" where
  "xdiv NaN y = NaN"
| "xdiv x NaN = NaN"
| "xdiv (Num a) (Num b) =
     (if b \<noteq> 0 then Num (a / b)
      else if 0 < a then PosInf
      else if a < 0 then NegInf
      else NaN)"
| "xdiv (Num a) y = Num 0"
| "xdiv PosInf (Num b) = (if 0 \<le> b then PosInf else NegInf)"
| "xdiv NegInf (Num b) = (if 0 \<le> b then NegInf else PosInf)"
| "xdiv x y = NaN"

fun xgt :: "xfloat \<Rightarrow> xfloat \<Rightarrow> bool" where
  "xgt (Num a) (Num b) = (b < a)"
| "xgt PosInf (Num b) = True"
| "xgt PosInf NegInf = True"
| "xgt (Num a) NegInf = True"
| "xgt x y = False"

text \<open>\<open>np.mean\<close> of a list of floats: \<open>nan\<close> on the empty list.\<close>

fun np_mean :: "real list \<Rightarrow> xfloat" where
  "np_mean [] = NaN"
| "np_mean (x # xs) = Num (sum_list (x # xs) / real (length (x # xs)))"

datatype error = IndexError | KeyError | ValueError | AttributeError | RuntimeError

text \<open>The constant \<open>TOL = 1e-10\<close>.\<close>

definition TOL :: real where
  "TOL = 1 / 10 ^ 10"

subsection \<open>Rounding to a double\<close>

text \<open>
  A product of two doubles is the double nearest to the exact product, ties going to the
  even significand (IEEE 754 binary64, the arithmetic of a Python float). A double is an
  integer multiple of \<open>2 ^ (e - 52)\<close>, where \<open>e\<close> is the exponent of its binade and at
  least \<open>-1022\<close>: below \<open>2 ^ -1022\<close> the spacing stays \<open>2 ^ -1074\<close>, so that a result
  of magnitude below \<open>2 ^ -1075\<close> is rounded to zero. The exponent is not bounded above
  here: a result beyond the largest double, which the code turns into an infinity, is
  outside this model.
\<close>

definition rne :: "real \<Rightarrow> int" where
  "rne x =
     (let f = \<lfloor>x\<rfloor>; r = x - of_int f
      in if r < 1 / 2 then f
         else if 1 / 2 < r then f + 1
         else if even f then f
         else f + 1)"

definition binade :: "real \<Rightarrow> int" where
  "binade x = max \<lfloor>log 2 \<bar>x\<bar>\<rfloor> (- 1022)"

definition round_double :: "real \<Rightarrow> real" where
  "round_double x =
     (if x = 0 then 0
      else of_int (rne (x / 2 powr of_int (binade x - 52))) * 2 powr of_int (binade x - 52))"

definition double_mul :: "real \<Rightarrow> real \<Rightarrow> real" where
  "double_mul x y = round_double (x * y)"

subsection \<open>The actor-critic network\<close>

text \<open>
  The network is a pair of layer stacks, the action map and the weights. The weights and
  what the layers compute belong to torch: they are an abstract value \<open>'w\<close>.
\<close>

datatype layer = Linear int int | NonLinearity | Softmax

record ('a, 'w) ActorCritic =
  actor :: "layer list"
  critic :: "layer list"
  action_map :: "int \<rightharpoonup> 'a"
  weights :: 'w

text \<open>
  \<open>ActorCritic.__init__\<close>: \<open>units[0]\<close> and \<open>units[-1]\<close> raise IndexError on an empty
  list of hidden-layer widths, and \<open>nn.Linear\<close> raises RuntimeError on a negative number
  of input or output features; the actor network is built first.
\<close>

definition hidden_layers :: "int list \<Rightarrow> layer list" where
  "hidden_layers units =
     concat (map (\<lambda>i. [Linear (units ! (i - 1)) (units ! i), NonLinearity]) [1..<length units])"

definition ActorCritic_init ::
  "int \<Rightarrow> int \<Rightarrow> (int \<rightharpoonup> 'a) \<Rightarrow> int list \<Rightarrow> int list \<Rightarrow> 'w \<Rightarrow> error + ('a, 'w) ActorCritic" where
  "ActorCritic_init state_space_dimension action_space_dimension amap
       actor_hidden_layer_units critic_hidden_layer_units w =
     (if actor_hidden_layer_units = [] then Inl IndexError
      else if state_space_dimension < 0 \<or> list_ex (\<lambda>u. u < 0) actor_hidden_layer_units
              \<or> action_space_dimension < 0 then Inl RuntimeError
      else if critic_hidden_layer_units = [] then Inl IndexError
      else if list_ex (\<lambda>u. u < 0) critic_hidden_layer_units then Inl RuntimeError
      else Inr \<lparr>
        actor = [Linear state_space_dimension (hd actor_hidden_layer_units), NonLinearity]
                @ hidden_layers actor_hidden_layer_units
                @ [Linear (last actor_hidden_layer_units) action_space_dimension, Softmax],
        critic = [Linear state_space_dimension (hd critic_hidden_layer_units), NonLinearity]
                @ hidden_layers critic_hidden_layer_units
                @ [Linear (last critic_hidden_layer_units) 1],
        action_map = amap,
        weights = w \<rparr>)"

subsection \<open>The environment and the other collaborators\<close>

text \<open>
  The environment classes are not part of the sources. The learner reads and assigns the
  attribute \<open>init\<close> and calls \<open>reset()\<close> and \<open>step(action)\<close>; everything else of the
  simulator is the abstract value \<open>hidden\<close>.
\<close>

record ('s, 'x) environment =
  init :: 's
  hidden :: 'x

text \<open>
  What the learner calls but does not define: seeding and weight initialisation (torch,
  numpy), drawing an action index from the actor's output (\<open>Categorical(...).sample().item()\<close>),
  sampling the initial-state box (gym), and the environment's \<open>step\<close> (of whose result
  the learner keeps the new state and the reward) and \<open>reset\<close>. Randomness is a
  generator state \<open>'g\<close> that is passed along.
\<close>

record ('s, 'a, 'x, 'g, 'w, 'b) externals =
  manual_seed :: "int \<Rightarrow> 'g"
  init_weights :: "'g \<Rightarrow> 'w \<times> 'g"
  categorical :: "('a, 'w) ActorCritic \<Rightarrow> 's \<Rightarrow> 'g \<Rightarrow> int \<times> 'g"
  box_sample :: "'b \<Rightarrow> 'g \<Rightarrow> 's \<times> 'g"
  env_step :: "'a \<Rightarrow> ('s, 'x) environment \<Rightarrow> ('s \<times> real) \<times> ('s, 'x) environment"
  env_reset :: "('s, 'x) environment \<Rightarrow> ('s, 'x) environment"

subsection \<open>The learner\<close>

text \<open>
  The attributes of \<open>PPOLearner\<close>. Network objects are mutable and shared by reference,
  so \<open>policy\<close> and \<open>best_policy\<close> are addresses into \<open>heap\<close>, the store of network
  objects; \<open>optimizer\<close> is the address of the network whose parameters the Adam optimizer
  was given. \<open>next_addr\<close> is the first address not yet allocated and \<open>rng\<close> the state
  of the random generators. The best mean reward starts at \<open>NegInf\<close>.
\<close>

type_synonym addr = nat

record ('s, 'a, 'x, 'g, 'w, 'b) PPOLearner =
  seed :: int
  environment :: "('s, 'x) environment"
  policy :: addr
  optimizer :: addr
  random_init_box :: "'b option"
  n_steps_per_trajectory :: int
  n_trajectories_per_batch :: int
  n_epochs :: int
  n_iterations :: int
  discount :: real
  clipping_param :: real
  critic_coefficient :: real
  entropy_coefficient :: real
  entropy_decay :: real
  reversion_threshold :: real
  reversion_threshold_decay :: real
  min_reversion_threshold :: real
  randomize_init_state :: bool
  mean_rewards :: "xfloat list"
  best_mean_reward :: xfloat
  best_policy :: addr
  heap :: "addr \<Rightarrow> ('a, 'w) ActorCritic"
  next_addr :: addr
  rng :: 'g

text \<open>
  \<open>PPOLearner.__init__\<close>, lines 87-153. The constructor has no check of its own; what
  it calls can raise, in this order: \<open>torch.manual_seed\<close> (RuntimeError for a seed
  outside \<open>-2 ^ 63 .. 2 ^ 64 - 1\<close>), \<open>np.random.seed\<close> (ValueError for a seed outside
  \<open>0 .. 2 ^ 32 - 1\<close>), the network constructor, and \<open>torch.optim.Adam\<close> (ValueError
  for a negative learning rate). The new network is allocated at address 0 and its
  \<open>deepcopy\<close> at address 1.
\<close>

definition PPOLearner_init ::
  "('s, 'a, 'x, 'g, 'w, 'b) externals \<Rightarrow> ('s, 'x) environment \<Rightarrow> int \<Rightarrow> int \<Rightarrow> (int \<rightharpoonup> 'a)
   \<Rightarrow> int list \<Rightarrow> int list \<Rightarrow> 'b option \<Rightarrow> int \<Rightarrow> int \<Rightarrow> int \<Rightarrow> int
   \<Rightarrow> real \<Rightarrow> real \<Rightarrow> real \<Rightarrow> real \<Rightarrow> real \<Rightarrow> real \<Rightarrow> real \<Rightarrow> real \<Rightarrow> real \<Rightarrow> int
   \<Rightarrow> error + ('s, 'a, 'x, 'g, 'w, 'b) PPOLearner" where
  "PPOLearner_init X env state_space_dimension action_space_dimension amap
       critic_hidden_layer_units actor_hidden_layer_units box
       n_steps n_trajectories epochs iterations
       learning_rate discount_arg clipping critic_coef entropy_coef entropy_dec
       rev_threshold rev_threshold_decay min_rev_threshold seed_arg =
     (if seed_arg < - (2 ^ 63) \<or> 2 ^ 64 - 1 < seed_arg then Inl RuntimeError
      else if seed_arg < 0 \<or> 2 ^ 32 - 1 < seed_arg then Inl ValueError
      else
      let (w, g) = init_weights X (manual_seed X seed_arg) in
      case ActorCritic_init state_space_dimension action_space_dimension amap
             actor_hidden_layer_units critic_hidden_layer_units w of
        Inl e \<Rightarrow> Inl e
      | Inr net \<Rightarrow>
        if learning_rate < 0 then Inl ValueError
        else Inr \<lparr>
          seed = seed_arg,
          environment = env,
          policy = 0,
          optimizer = 0,
          random_init_box = box,
          n_steps_per_trajectory = n_steps,
          n_trajectories_per_batch = n_trajectories,
          n_epochs = epochs,
          n_iterations = iterations,
          discount = discount_arg,
          clipping_param = clipping,
          critic_coefficient = critic_coef,
          entropy_coefficient = entropy_coef,
          entropy_decay = entropy_dec,
          reversion_threshold = rev_threshold,
          reversion_threshold_decay = rev_threshold_decay,
          min_reversion_threshold = min_rev_threshold,
          randomize_init_state = (case box of None \<Rightarrow> False | Some b \<Rightarrow> True),
          mean_rewards = [],
          best_mean_reward = NegInf,
          best_policy = 1,
          heap = (\<lambda>a. net),
          next_addr = 2,
          rng = g \<rparr>)"

subsection \<open>Hyperparameter scheduler\<close>

text \<open>
  \<open>PPOLearner.update_hyperparameters\<close>, lines 288-294. The new entropy coefficient is
  the product of two doubles, rounded.
\<close>

definition update_hyperparameters ::
  "('s, 'a, 'x, 'g, 'w, 'b) PPOLearner \<Rightarrow> ('s, 'a, 'x, 'g, 'w, 'b) PPOLearner" where
  "update_hyperparameters L =
     (let L1 = L\<lparr>entropy_coefficient := double_mul (entropy_decay L) (entropy_coefficient L)\<rparr>
      in L1\<lparr>reversion_threshold :=
               max (reversion_threshold_decay L1 * reversion_threshold_decay L1)
                   (min_reversion_threshold L1)\<rparr>)"

subsection \<open>Discounted returns\<close>

text \<open>
  \<open>PPOLearner.calculate_discounted_rewards\<close>, lines 155-161: the loop runs over
  \<open>reversed(range(n_steps_per_trajectory))\<close>, reads \<open>rewards[t]\<close> (IndexError when
  \<open>t\<close> is not below the length) and inserts each return at the front.
\<close>

fun discount_loop :: "real \<Rightarrow> real list \<Rightarrow> nat list \<Rightarrow> real \<Rightarrow> real list \<Rightarrow> error + real list" where
  "discount_loop g rewards [] discounted_reward discounted_rewards = Inr discounted_rewards"
| "discount_loop g rewards (t # ts) discounted_reward discounted_rewards =
     (if t < length rewards then
        (let d = rewards ! t + g * discounted_reward
         in discount_loop g rewards ts d (d # discounted_rewards))
      else Inl IndexError)"

definition calculate_discounted_rewards ::
  "real list \<Rightarrow> ('s, 'a, 'x, 'g, 'w, 'b) PPOLearner \<Rightarrow> error + real list" where
  "calculate_discounted_rewards rewards L =
     discount_loop (discount L) rewards (rev [0..<nat (n_steps_per_trajectory L)]) 0 []"

subsection \<open>Trajectory generation\<close>

text \<open>
  \<open>ActorCritic.sample_action\<close>, lines 79-82: an action index is drawn and looked up in
  the action map; a key that is missing raises KeyError.
\<close>

definition sample_action ::
  "('s, 'a, 'x, 'g, 'w, 'b) externals \<Rightarrow> ('a, 'w) ActorCritic \<Rightarrow> 's \<Rightarrow> 'g \<Rightarrow> error + ('a \<times> 'g)" where
  "sample_action X net state g =
     (let (action, g') = categorical X net state g
      in case action_map net action of
           None \<Rightarrow> Inl KeyError
         | Some v \<Rightarrow> Inr (v, g'))"

text \<open>
  The loop of \<open>generate_trajectory\<close>, lines 179-190; the first argument counts the
  iterations that remain.
\<close>

fun rollout ::
  "('s, 'a, 'x, 'g, 'w, 'b) externals \<Rightarrow> nat \<Rightarrow> 's \<Rightarrow> 's list \<Rightarrow> real list
   \<Rightarrow> ('s, 'a, 'x, 'g, 'w, 'b) PPOLearner
   \<Rightarrow> error + (('s list \<times> real list) \<times> ('s, 'a, 'x, 'g, 'w, 'b) PPOLearner)" where
  "rollout X 0 state states rewards L = Inr ((states, rewards), L)"
| "rollout X (Suc n) state states rewards L =
     (case sample_action X (heap L (policy L)) state (rng L) of
        Inl e \<Rightarrow> Inl e
      | Inr (action, g) \<Rightarrow>
          (let ((new_state, reward), env) = env_step X action (environment L)
           in rollout X n new_state (states @ [state]) (rewards @ [reward])
                (L\<lparr>environment := env, rng := g\<rparr>)))"

text \<open>
  \<open>PPOLearner.generate_trajectory\<close>, lines 163-200. \<open>range(n + 1)\<close> has
  \<open>nat (n + 1)\<close> elements, \<open>states[:-1]\<close> is \<open>butlast\<close>. Sampling the box when
  \<open>random_init_box\<close> is \<open>None\<close> raises AttributeError.
\<close>

definition generate_trajectory ::
  "('s, 'a, 'x, 'g, 'w, 'b) externals \<Rightarrow> ('s, 'a, 'x, 'g, 'w, 'b) PPOLearner
   \<Rightarrow> error + (('s list \<times> real list \<times> real list) \<times> ('s, 'a, 'x, 'g, 'w, 'b) PPOLearner)" where
  "generate_trajectory X L =
     (let init_state = init (environment L)
      in case (if randomize_init_state L then
                 (case random_init_box L of
                    None \<Rightarrow> Inl AttributeError
                  | Some box \<Rightarrow>
                      (let (state, g) = box_sample X box (rng L)
                       in Inr (state, L\<lparr>environment :=
                                          env_reset X ((environment L)\<lparr>init := state\<rparr>),
                                        rng := g\<rparr>)))
               else Inr (init_state, L)) of
           Inl e \<Rightarrow> Inl e
         | Inr (state, L1) \<Rightarrow>
             (case rollout X (nat (n_steps_per_trajectory L1 + 1)) state [] [] L1 of
                Inl e \<Rightarrow> Inl e
              | Inr ((states, rewards), L2) \<Rightarrow>
                  (let L3 = L2\<lparr>environment :=
                                 env_reset X ((environment L2)\<lparr>init := init_state\<rparr>)\<rparr>
                   in case calculate_discounted_rewards rewards L3 of
                        Inl e \<Rightarrow> Inl e
                      | Inr discounted_rewards \<Rightarrow>
                          Inr ((butlast states, rewards, discounted_rewards), L3))))"

subsection \<open>Batch aggregation\<close>

text \<open>
  Modelled from the spec: \<open>utils.misc.concatenate_lists\<close> is imported by the learner but
  its source is missing. The spec has the aggregator "concatenate each trajectory's states,
  rewards, and discounted rewards into single ordered sequences, preserving trajectory
  order and within-trajectory order".
\<close>

definition concatenate_lists :: "'v list list \<Rightarrow> 'v list" where
  "concatenate_lists xss = concat xss"

text \<open>The list comprehension of \<open>generate_batch\<close>, line 206: the trajectories in order.\<close>

fun generate_trajectories ::
  "('s, 'a, 'x, 'g, 'w, 'b) externals \<Rightarrow> nat \<Rightarrow> ('s, 'a, 'x, 'g, 'w, 'b) PPOLearner
   \<Rightarrow> error + (('s list \<times> real list \<times> real list) list \<times> ('s, 'a, 'x, 'g, 'w, 'b) PPOLearner)" where
  "generate_trajectories X 0 L = Inr ([], L)"
| "generate_trajectories X (Suc n) L =
     (case generate_trajectory X L of
        Inl e \<Rightarrow> Inl e
      | Inr (trajectory, L1) \<Rightarrow>
          (case generate_trajectories X n L1 of
             Inl e \<Rightarrow> Inl e
           | Inr (trajectories, L2) \<Rightarrow> Inr (trajectory # trajectories, L2)))"

text \<open>
  \<open>PPOLearner.generate_batch\<close>, lines 202-210. With no trajectory, \<open>zip(*trajectories)\<close>
  yields nothing and unpacking three values from it raises ValueError. The decorator
  \<open>timer\<close> of \<open>utils.misc\<close> is taken to pass the result of the function through.
\<close>

definition generate_batch ::
  "('s, 'a, 'x, 'g, 'w, 'b) externals \<Rightarrow> ('s, 'a, 'x, 'g, 'w, 'b) PPOLearner
   \<Rightarrow> error + (('s list \<times> real list \<times> real list) \<times> ('s, 'a, 'x, 'g, 'w, 'b) PPOLearner)" where
  "generate_batch X L =
     (case generate_trajectories X (nat (n_trajectories_per_batch L)) L of
        Inl e \<Rightarrow> Inl e
      | Inr (trajectories, L1) \<Rightarrow>
          (if trajectories = [] then Inl ValueError
           else Inr ((concatenate_lists (map fst trajectories),
                      concatenate_lists (map (\<lambda>tr. fst (snd tr)) trajectories),
                      concatenate_lists (map (\<lambda>tr. snd (snd tr)) trajectories)), L1)))"

subsection \<open>Performance tracking and reversion\<close>

text \<open>
  \<open>PPOLearner._track_performance\<close>, lines 212-221. \<open>deepcopy(self.policy)\<close> allocates a
  new network object holding a copy of the live one; \<open>self.policy = self.best_policy\<close>
  copies the reference.
\<close>

definition track_performance ::
  "real list \<Rightarrow> ('s, 'a, 'x, 'g, 'w, 'b) PPOLearner \<Rightarrow> ('s, 'a, 'x, 'g, 'w, 'b) PPOLearner" where
  "track_performance rewards L =
     (let mean_reward = np_mean rewards;
          L1 = L\<lparr>mean_rewards := mean_rewards L @ [mean_reward]\<rparr>
      in if xgt mean_reward (best_mean_reward L1) then
           L1\<lparr>best_mean_reward := mean_reward,
              best_policy := next_addr L1,
              heap := (heap L1)(next_addr L1 := heap L1 (policy L1)),
              next_addr := Suc (next_addr L1)\<rparr>
         else if xgt (xdiv (xsub (best_mean_reward L1) mean_reward) (best_mean_reward L1))
                     (Num (reversion_threshold L1)) then
           L1\<lparr>policy := best_policy L1\<rparr>
         else L1)"

text \<open>
  An in-place change of the weights of the network object at an address, which is what a
  step of the optimizer does to the parameter tensors it holds.
\<close>

definition mutate_parameters ::
  "addr \<Rightarrow> ('w \<Rightarrow> 'w) \<Rightarrow> ('s, 'a, 'x, 'g, 'w, 'b) PPOLearner \<Rightarrow> ('s, 'a, 'x, 'g, 'w, 'b) PPOLearner" where
  "mutate_parameters a f L =
     L\<lparr>heap := (heap L)(a := (heap L a)\<lparr>weights := f (weights (heap L a))\<rparr>)\<rparr>"

subsection \<open>The loss\<close>

text \<open>
  \<open>PPOLearner.ppo_loss\<close>, lines 239-256. A tensor of shape N x A is a list of N rows, one
  of shape N x 1 a list of N numbers; the N x 1 advantage is broadcast along each row.
  \<open>torch.mean\<close> of an empty tensor is \<open>nan\<close>, here \<open>None\<close>. The tensors come from the
  same batch, so their shapes agree.
\<close>

definition torch_mean :: "real list \<Rightarrow> real option" where
  "torch_mean xs = (if xs = [] then None else Some (sum_list xs / real (length xs)))"

definition clamp :: "real \<Rightarrow> real \<Rightarrow> real \<Rightarrow> real" where
  "clamp x lo hi = min (max x lo) hi"

definition ratio :: "real list list \<Rightarrow> real list list \<Rightarrow> real list list" where
  "ratio policy_probabilities old_policy_probabilities =
     map2 (\<lambda>ps qs. map2 (\<lambda>p q. exp (ln (p + TOL) - ln (q + TOL))) ps qs)
          policy_probabilities old_policy_probabilities"

definition actor_loss ::
  "real \<Rightarrow> real list list \<Rightarrow> real list list \<Rightarrow> real list \<Rightarrow> real option" where
  "actor_loss clipping policy_probabilities old_policy_probabilities advantage_estimates =
     map_option uminus
       (torch_mean (concat (map2
          (\<lambda>rs adv. map (\<lambda>r. min (clamp r (1 - clipping) (1 + clipping) * adv) (r * adv)) rs)
          (ratio policy_probabilities old_policy_probabilities) advantage_estimates)))"

definition critic_loss :: "real list \<Rightarrow> real list \<Rightarrow> real option" where
  "critic_loss discounted_rewards vals =
     torch_mean (map2 (\<lambda>d v. (d - v) ^ 2) discounted_rewards vals)"

definition entropy_loss :: "real list list \<Rightarrow> real option" where
  "entropy_loss policy_probabilities =
     torch_mean (concat (map (map (\<lambda>p. p * ln (p + TOL))) policy_probabilities))"

definition ppo_loss ::
  "('s, 'a, 'x, 'g, 'w, 'b) PPOLearner \<Rightarrow> real list \<Rightarrow> real list \<Rightarrow> real list list
   \<Rightarrow> real list list \<Rightarrow> real list \<Rightarrow> real option" where
  "ppo_loss L vals discounted_rewards policy_probabilities old_policy_probabilities
       advantage_estimates =
     (case actor_loss (clipping_param L) policy_probabilities old_policy_probabilities
             advantage_estimates of
        None \<Rightarrow> None
      | Some a \<Rightarrow>
          (case critic_loss discounted_rewards vals of
             None \<Rightarrow> None
           | Some c \<Rightarrow>
               (case entropy_loss policy_probabilities of
                  None \<Rightarrow> None
                | Some e \<Rightarrow>
                    Some (a + critic_coefficient L * c + entropy_coefficient L * e))))"

text \<open>
  The entropy of the batch of distributions in the usual sense, with the same \<open>TOL\<close>
  inside the logarithm: the mean of \<open>- p * log (p + TOL)\<close>.
\<close>

definition standard_entropy :: "real list list \<Rightarrow> real" where
  "standard_entropy policy_probabilities =
     sum_list (map (\<lambda>p. - (p * ln (p + TOL))) (concat policy_probabilities))
       / real (length (concat policy_probabilities))"

text \<open>
  The returns of a reward sequence written as a recursion from the front: each return is
  the reward plus the discounted next return, and the return after the last reward is 0.
\<close>

fun returns :: "real \<Rightarrow> real list \<Rightarrow> real list" where
  "returns g [] = []"
| "returns g (r # rs) = (r + g * (case returns g rs of [] \<Rightarrow> 0 | d # ds \<Rightarrow> d)) # returns g rs"

subsection \<open>A small deterministic instance\<close>

text \<open>
  A one-dimensional environment whose state is an integer: a step adds the action to the
  state and pays the new state as reward, a reset returns to \<open>init\<close>. The policy always
  draws index 0, which the action map sends to the action 1.
\<close>

definition toy_externals :: "(int, int, int, nat, int, int) externals" where
  "toy_externals = \<lparr>
     manual_seed = (\<lambda>s. 0),
     init_weights = (\<lambda>g. (0, g)),
     categorical = (\<lambda>net s g. (0, Suc g)),
     box_sample = (\<lambda>b g. (b, Suc g)),
     env_step = (\<lambda>a e. ((hidden e + a, real_of_int (hidden e + a)), e\<lparr>hidden := hidden e + a\<rparr>)),
     env_reset = (\<lambda>e. e\<lparr>hidden := init e\<rparr>) \<rparr>"

definition toy_environment :: "(int, int) environment" where
  "toy_environment = \<lparr>init = 0, hidden = 0\<rparr>"

definition toy_network :: "(int, int) ActorCritic" where
  "toy_network = \<lparr>
     actor = [Linear 1 4, NonLinearity, Linear 4 1, Softmax],
     critic = [Linear 1 4, NonLinearity, Linear 4 1],
     action_map = [0 \<mapsto> 1],
     weights = 0 \<rparr>"

text \<open>
  The learner that the constructor builds for this instance with the given box, horizon
  and batch size and the default value of every other argument.
\<close>

definition toy_learner :: "int option \<Rightarrow> int \<Rightarrow> int \<Rightarrow> (int, int, int, nat, int, int) PPOLearner" where
  "toy_learner box n_steps n_trajectories = \<lparr>
     seed = 0,
     environment = toy_environment,
     policy = 0,
     optimizer = 0,
     random_init_box = box,
     n_steps_per_trajectory = n_steps,
     n_trajectories_per_batch = n_trajectories,
     n_epochs = 5,
     n_iterations = 50,
     discount = 99 / 100,
     clipping_param = 1 / 10,
     critic_coefficient = 1,
     entropy_coefficient = 1 / 10,
     entropy_decay = 999 / 1000,
     reversion_threshold = 2 / 10,
     reversion_threshold_decay = 99 / 100,
     min_reversion_threshold = 1 / 10,
     randomize_init_state = (box \<noteq> None),
     mean_rewards = [],
     best_mean_reward = NegInf,
     best_policy = 1,
     heap = (\<lambda>a. toy_network),
     next_addr = 2,
     rng = 0 \<rparr>"

section \<open>Hyperparameter scheduler\<close>

lemma update_hyperparameters_fields:
  "entropy_coefficient (update_hyperparameters L)
     = double_mul (entropy_decay L) (entropy_coefficient L)"
  "entropy_decay (update_hyperparameters L) = entropy_decay L"
  "reversion_threshold (update_hyperparameters L) =
     max (reversion_threshold_decay L * reversion_threshold_decay L) (min_reversion_threshold L)"
  "reversion_threshold_decay (update_hyperparameters L) = reversion_threshold_decay L"
  "min_reversion_threshold (update_hyperparameters L) = min_reversion_threshold L"
  by (simp_all add: update_hyperparameters_def Let_def)

text \<open>
  Claim C1. The claim has the reversion threshold after an update equal to the maximum of
  the squared decay factor times the threshold before the update and the minimum
  threshold. The update computes the maximum of the squared decay factor alone and the
  minimum threshold: the threshold before the update is not read. With the default
  configuration (threshold 0.2, decay 0.99, minimum 0.1) the threshold after one update is
  0.9801, where the claimed formula gives 0.19602.
\<close>

theorem reversion_threshold_update_default:
  "reversion_threshold (toy_learner None 128 8) = 2 / 10
   \<and> reversion_threshold (update_hyperparameters (toy_learner None 128 8)) = 9801 / 10000
   \<and> max ((reversion_threshold_decay (toy_learner None 128 8))\<^sup>2
            * reversion_threshold (toy_learner None 128 8))
         (min_reversion_threshold (toy_learner None 128 8)) = 19602 / 100000"
  by (simp add: update_hyperparameters_fields toy_learner_def power2_eq_square)

section \<open>Rounding to a double\<close>

lemma rne_cases: "rne x = \<lfloor>x\<rfloor> \<or> rne x = \<lfloor>x\<rfloor> + 1"
  by (simp add: rne_def Let_def)

lemma rne_of_int: "rne (of_int k) = k"
  by (simp add: rne_def Let_def)

lemma rne_mono: "x \<le> y \<Longrightarrow> rne x \<le> rne y"
proof -
  assume xy: "x \<le> y"
  then have f: "\<lfloor>x\<rfloor> \<le> \<lfloor>y\<rfloor>" by (rule floor_mono)
  show ?thesis
  proof (cases "\<lfloor>x\<rfloor> = \<lfloor>y\<rfloor>")
    case True
    with xy show ?thesis by (auto simp add: rne_def Let_def)
  next
    case False
    with f have "\<lfloor>x\<rfloor> + 1 \<le> \<lfloor>y\<rfloor>" by simp
    moreover have "rne x \<le> \<lfloor>x\<rfloor> + 1" using rne_cases [of x] by auto
    moreover have "\<lfloor>y\<rfloor> \<le> rne y" using rne_cases [of y] by auto
    ultimately show ?thesis by linarith
  qed
qed

lemma rne_error: "\<bar>of_int (rne x) - x\<bar> \<le> 1 / 2"
  unfolding rne_def Let_def by (auto simp: abs_le_iff)

lemma rne_small: "0 \<le> x \<Longrightarrow> x < 1 / 2 \<Longrightarrow> rne x = 0"
proof -
  assume a: "0 \<le> x" "x < 1 / 2"
  then have "\<lfloor>x\<rfloor> = 0" by (simp add: floor_eq_iff)
  with a show ?thesis by (simp add: rne_def Let_def)
qed

lemma binade_ge: "- 1022 \<le> binade x"
  by (simp add: binade_def)

lemma binade_upper: "0 < x \<Longrightarrow> x < 2 powr of_int (binade x + 1)"
proof -
  assume x: "0 < x"
  have "x < 2 powr of_int (\<lfloor>log 2 x\<rfloor> + 1)"
    using floor_log_eq_powr_iff [of x 2 "\<lfloor>log 2 x\<rfloor>"] x by simp
  also have "\<dots> \<le> 2 powr of_int (binade x + 1)"
    using x by (intro powr_mono) (simp_all add: binade_def)
  finally show ?thesis .
qed

lemma binade_eqI:
  "2 powr of_int e \<le> x \<Longrightarrow> x < 2 powr of_int (e + 1) \<Longrightarrow> - 1022 \<le> e \<Longrightarrow> binade x = e"
proof -
  assume a: "2 powr of_int e \<le> x" "x < 2 powr of_int (e + 1)" "- 1022 \<le> e"
  have x: "0 < x" using a(1) by (rule less_le_trans [rotated]) simp
  then have "\<lfloor>log 2 x\<rfloor> = e"
    using floor_log_eq_powr_iff [of x 2 e] a by simp
  with x a(3) show ?thesis by (simp add: binade_def)
qed

lemma binade_subnormal:
  "0 < x \<Longrightarrow> x < 2 powr of_int (- 1022) \<Longrightarrow> binade x = - 1022"
proof -
  assume x: "0 < x" and small: "x < 2 powr of_int (- 1022)"
  have "log 2 x < of_int (- 1022)"
    using x small by (subst log_less_iff) simp_all
  then have "\<lfloor>log 2 x\<rfloor> < - 1022" by (simp add: floor_less_iff)
  with x show ?thesis by (simp add: binade_def)
qed

lemma binade_lower:
  "0 < x \<Longrightarrow> - 1022 < binade x \<Longrightarrow> 2 powr of_int (binade x) \<le> x"
proof -
  assume x: "0 < x" and n: "- 1022 < binade x"
  then have "binade x = \<lfloor>log 2 x\<rfloor>" by (simp add: binade_def max_def split: if_splits)
  then show ?thesis
    using floor_log_eq_powr_iff [of x 2 "\<lfloor>log 2 x\<rfloor>"] x by simp
qed

lemma binade_mono: "0 < x \<Longrightarrow> x \<le> y \<Longrightarrow> binade x \<le> binade y"
proof -
  assume x: "0 < x" and xy: "x \<le> y"
  then have "log 2 x \<le> log 2 y" by simp
  then have "\<lfloor>log 2 x\<rfloor> \<le> \<lfloor>log 2 y\<rfloor>" by (rule floor_mono)
  with x xy show ?thesis by (simp add: binade_def)
qed

lemma two_powr_int_add: "2 powr of_int (a + b) = 2 powr of_int a * (2::real) powr of_int b"
  by (simp add: powr_add)

lemma two_powr_53: "(2::real) powr of_int 53 = of_int (2 ^ 53)"
  by (simp add: powr_numeral [symmetric] del: powr_numeral)


lemma two_powr_52: "(2::real) powr of_int 52 = of_int (2 ^ 52)"
  by (simp add: powr_numeral [symmetric] del: powr_numeral)

lemma scale_53: "of_int (2 ^ 53) * 2 powr of_int (e - 52) = (2::real) powr of_int (e + 1)"
proof -
  have "(2::real) powr of_int (e + 1) = 2 powr (of_int 53 + of_int (e - 52))"
    by (rule arg_cong [where f = "\<lambda>t. 2 powr t"]) simp
  also have "\<dots> = 2 powr of_int 53 * 2 powr of_int (e - 52)" by (rule powr_add)
  finally show ?thesis unfolding two_powr_53 by simp
qed

lemma scale_52: "of_int (2 ^ 52) * 2 powr of_int (e - 52) = (2::real) powr of_int e"
proof -
  have "(2::real) powr of_int e = 2 powr (of_int 52 + of_int (e - 52))"
    by (rule arg_cong [where f = "\<lambda>t. 2 powr t"]) simp
  also have "\<dots> = 2 powr of_int 52 * 2 powr of_int (e - 52)" by (rule powr_add)
  finally show ?thesis unfolding two_powr_52 by simp
qed

lemma round_double_pos:
  "x \<noteq> 0 \<Longrightarrow> round_double x
     = of_int (rne (x / 2 powr of_int (binade x - 52))) * 2 powr of_int (binade x - 52)"
  by (simp add: round_double_def)

lemma rne_scaled_le:
  "0 < q \<Longrightarrow> x \<le> of_int k * q \<Longrightarrow> of_int (rne (x / q)) * q \<le> of_int k * q" for q :: real
proof -
  assume q: "0 < q" and le: "x \<le> of_int k * q"
  then have "x / q \<le> of_int k" by (simp add: pos_divide_le_eq)
  from rne_mono [OF this] have "rne (x / q) \<le> k" by (simp add: rne_of_int)
  then have "(of_int (rne (x / q)) :: real) \<le> of_int k" by simp
  with q show ?thesis by (simp add: mult_right_mono)
qed

lemma rne_scaled_ge:
  "0 < q \<Longrightarrow> of_int k * q \<le> x \<Longrightarrow> of_int k * q \<le> of_int (rne (x / q)) * q" for q :: real
proof -
  assume q: "0 < q" and le: "of_int k * q \<le> x"
  then have "of_int k \<le> x / q" by (simp add: pos_le_divide_eq)
  from rne_mono [OF this] have "k \<le> rne (x / q)" by (simp add: rne_of_int)
  then have "(of_int k :: real) \<le> of_int (rne (x / q))" by simp
  with q show ?thesis by (simp add: mult_right_mono)
qed

lemma round_double_nonneg: "0 \<le> x \<Longrightarrow> 0 \<le> round_double x"
proof (cases "x = 0")
  case True
  then show ?thesis by (simp add: round_double_def)
next
  case False
  assume "0 \<le> x"
  then have "of_int 0 * 2 powr of_int (binade x - 52) \<le> x" by simp
  from rne_scaled_ge [OF _ this] show ?thesis
    using False by (simp add: round_double_pos)
qed

lemma round_double_upper:
  assumes "0 < x"
  shows "round_double x \<le> 2 powr of_int (binade x + 1)"
proof -
  let ?q = "2 powr of_int (binade x - 52) :: real"
  have split: "2 powr of_int (binade x + 1) = of_int (2 ^ 53) * ?q"
    by (rule scale_53 [symmetric])
  have "x \<le> of_int (2 ^ 53) * ?q"
    using binade_upper [OF assms] unfolding split by simp
  from rne_scaled_le [OF _ this] show ?thesis
    using assms unfolding split by (simp add: round_double_pos)
qed

lemma round_double_lower:
  assumes "0 < x" and "- 1022 < binade x"
  shows "2 powr of_int (binade x) \<le> round_double x"
proof -
  let ?q = "2 powr of_int (binade x - 52) :: real"
  have split: "2 powr of_int (binade x) = of_int (2 ^ 52) * ?q"
    by (rule scale_52 [symmetric])
  have "of_int (2 ^ 52) * ?q \<le> x"
    using binade_lower [OF assms] unfolding split by simp
  from rne_scaled_ge [OF _ this] show ?thesis
    using assms unfolding split by (simp add: round_double_pos)
qed

lemma round_double_mono:
  assumes "0 \<le> x" and "x \<le> y"
  shows "round_double x \<le> round_double y"
proof (cases "x = 0")
  case True
  then show ?thesis using assms round_double_nonneg [of y] by (simp add: round_double_def)
next
  case False
  with assms have x: "0 < x" and y: "0 < y" by simp_all
  have le: "binade x \<le> binade y" using x assms(2) by (rule binade_mono)
  show ?thesis
  proof (cases "binade x = binade y")
    case True
    let ?q = "2 powr of_int (binade y - 52) :: real"
    have "x / ?q \<le> y / ?q" using assms(2) by (simp add: divide_right_mono)
    from rne_mono [OF this] have "(of_int (rne (x / ?q)) :: real) \<le> of_int (rne (y / ?q))"
      by simp
    then have "of_int (rne (x / ?q)) * ?q \<le> of_int (rne (y / ?q)) * ?q"
      by (simp add: mult_right_mono)
    then show ?thesis using x y True by (simp add: round_double_pos)
  next
    case False
    with le have lt: "binade x + 1 \<le> binade y" by simp
    then have normal: "- 1022 < binade y" using binade_ge [of x] by linarith
    have "round_double x \<le> 2 powr of_int (binade x + 1)"
      using x by (rule round_double_upper)
    also have "\<dots> \<le> 2 powr of_int (binade y)"
      using lt by (intro powr_mono) simp_all
    also have "\<dots> \<le> round_double y"
      using y normal by (rule round_double_lower)
    finally show ?thesis .
  qed
qed

lemma round_double_grid:
  assumes "0 < k" and "k \<le> 2 ^ 53" and "- 1022 \<le> e" and "- 1022 < e \<Longrightarrow> 2 ^ 52 \<le> k"
  shows "round_double (of_int k * 2 powr of_int (e - 52)) = of_int k * 2 powr of_int (e - 52)"
proof -
  let ?q = "2 powr of_int (e - 52) :: real"
  let ?x = "of_int k * ?q"
  have q: "0 < ?q" by simp
  have x: "0 < ?x" using assms(1) by simp
  show ?thesis
  proof (cases "k = 2 ^ 53")
    case True
    have val: "?x = 2 powr of_int (e + 1)"
      unfolding True by (rule scale_53)
    have b: "binade ?x = e + 1"
      unfolding val using assms(3) by (intro binade_eqI) (simp_all add: powr_less_mono)
    have "?x / 2 powr of_int (e + 1 - 52) = of_int (2 ^ 52)"
      unfolding val scale_52 [of "e + 1", symmetric] by simp
    then have r: "rne (?x / 2 powr of_int (e + 1 - 52)) = 2 ^ 52"
      by (simp only: rne_of_int)
    have nz: "?x \<noteq> 0" using x by (rule less_imp_neq [THEN not_sym])
    have "round_double ?x
        = of_int (rne (?x / 2 powr of_int (e + 1 - 52))) * 2 powr of_int (e + 1 - 52)"
      using round_double_pos [OF nz] unfolding b .
    also have "\<dots> = of_int (2 ^ 52) * 2 powr of_int (e + 1 - 52)"
      by (simp only: r)
    also have "\<dots> = 2 powr of_int (e + 1)"
      by (rule scale_52)
    finally show ?thesis using val by simp
  next
    case False
    with assms(2) have k: "k < 2 ^ 53" by simp
    have upper: "?x < 2 powr of_int (e + 1)"
    proof -
      have "(of_int k :: real) < of_int (2 ^ 53)" using k by (simp only: of_int_less_iff)
      then have "?x < of_int (2 ^ 53) * ?q" using q by (simp only: mult_less_cancel_right_pos)
      also have "\<dots> = 2 powr of_int (e + 1)"
        by (rule scale_53)
      finally show ?thesis .
    qed
    have b: "binade ?x = e"
    proof (cases "- 1022 < e")
      case True
      then have "(of_int (2 ^ 52) :: real) \<le> of_int k"
        using assms(4) by (simp only: of_int_le_iff)
      then have "of_int (2 ^ 52) * ?q \<le> ?x" using q by (simp only: mult_le_cancel_right_pos)
      then have "2 powr of_int e \<le> ?x" unfolding scale_52 .
      from binade_eqI [OF this upper assms(3)] show ?thesis .
    next
      case False
      with assms(3) have e: "e = - 1022" by simp
      show ?thesis
      proof (cases "2 powr of_int (- 1022) \<le> ?x")
        case True
        from binade_eqI [OF True [folded e] upper assms(3)] show ?thesis .
      next
        case False
        then have "?x < 2 powr of_int (- 1022)" by simp
        from binade_subnormal [OF x this] show ?thesis using e by simp
      qed
    qed
    have "?x / ?q = of_int k" by simp
    then have r: "rne (?x / ?q) = k"
      by (simp only: rne_of_int)
    have nz: "?x \<noteq> 0" using x by (rule less_imp_neq [THEN not_sym])
    have "round_double ?x = of_int (rne (?x / ?q)) * ?q"
      using round_double_pos [OF nz] unfolding b .
    then show ?thesis by (simp only: r)
  qed
qed

lemma round_double_idem:
  assumes "0 \<le> x"
  shows "round_double (round_double x) = round_double x"
proof (cases "round_double x = 0")
  case True
  then show ?thesis by (simp add: round_double_def)
next
  case False
  then have x0: "x \<noteq> 0" by (auto simp add: round_double_def)
  with assms have x: "0 < x" by simp
  let ?e = "binade x"
  let ?q = "2 powr of_int (?e - 52) :: real"
  let ?k = "rne (x / ?q)"
  have rd: "round_double x = of_int ?k * ?q" using x0 by (rule round_double_pos)
  have "0 \<le> round_double x" using assms by (rule round_double_nonneg)
  with False have "0 < round_double x" by linarith
  then have "0 < of_int ?k * ?q" unfolding rd .
  then have k0: "0 < ?k" by (simp add: zero_less_mult_iff)
  have "of_int ?k * ?q \<le> 2 powr of_int (?e + 1)"
    using round_double_upper [OF x] unfolding rd .
  also have "\<dots> = of_int (2 ^ 53) * ?q"
    by (rule scale_53 [symmetric])
  finally have "(of_int ?k :: real) \<le> of_int (2 ^ 53)"
    by (simp only: mult_le_cancel_right_pos powr_gt_zero)
  then have k53: "?k \<le> 2 ^ 53" by (simp only: of_int_le_iff)
  have k52: "2 ^ 52 \<le> ?k" if n: "- 1022 < ?e"
  proof -
    have "of_int (2 ^ 52) * ?q = 2 powr of_int ?e"
      by (rule scale_52)
    also have "\<dots> \<le> of_int ?k * ?q"
      using round_double_lower [OF x n] unfolding rd .
    finally have "(of_int (2 ^ 52) :: real) \<le> of_int ?k"
      by (simp only: mult_le_cancel_right_pos powr_gt_zero)
    then show ?thesis by (simp only: of_int_le_iff)
  qed
  from round_double_grid [OF k0 k53 binade_ge k52] show ?thesis unfolding rd .
qed

lemma round_double_underflow:
  assumes "0 \<le> x" and "x < 2 powr of_int (- 1075)"
  shows "round_double x = 0"
proof (cases "x = 0")
  case True
  then show ?thesis by (simp add: round_double_def)
next
  case False
  with assms have x: "0 < x" by simp
  have "2 powr of_int (- 1075) \<le> (2::real) powr of_int (- 1022)"
    by (intro powr_mono) simp_all
  with assms(2) have "x < 2 powr of_int (- 1022)" by (rule less_le_trans)
  from binade_subnormal [OF x this] have b: "binade x = - 1022" .
  have "x / 2 powr of_int (- 1074) < 2 powr of_int (- 1075) / 2 powr of_int (- 1074)"
    using assms(2) by (simp add: divide_strict_right_mono)
  also have "\<dots> = 2 powr of_int (- 1)"
    unfolding powr_diff [symmetric] by simp
  also have "\<dots> = 1 / 2" by (simp add: powr_minus_divide)
  finally have "x / 2 powr of_int (- 1074) < 1 / 2" .
  moreover have "0 \<le> x / 2 powr of_int (- 1074)" using x by simp
  ultimately have "rne (x / 2 powr of_int (- 1074)) = 0" by (intro rne_small)
  then show ?thesis using False b by (simp add: round_double_def)
qed

lemma round_double_error:
  "\<bar>round_double x - x\<bar> \<le> 2 powr of_int (binade x - 53)"
proof (cases "x = 0")
  case True
  then show ?thesis by (simp add: round_double_def)
next
  case False
  let ?q = "2 powr of_int (binade x - 52) :: real"
  have "round_double x - x = (of_int (rne (x / ?q)) - x / ?q) * ?q"
    using False by (simp add: round_double_pos algebra_simps)
  then have "\<bar>round_double x - x\<bar> = \<bar>of_int (rne (x / ?q)) - x / ?q\<bar> * ?q"
    by (simp add: abs_mult)
  also have "\<dots> \<le> 1 / 2 * ?q"
    using rne_error [of "x / ?q"] by (intro mult_right_mono) simp_all
  also have "\<dots> = 2 powr of_int (- 1) * ?q" by (simp add: powr_minus_divide)
  also have "\<dots> = 2 powr of_int (binade x - 53)"
    unfolding powr_add [symmetric] by simp
  finally show ?thesis .
qed

section \<open>Decay of the entropy coefficient\<close>

lemma entropy_decay_iterated:
  "entropy_decay ((update_hyperparameters ^^ N) L) = entropy_decay L"
  by (induction N) (simp_all add: update_hyperparameters_fields)

lemma entropy_coefficient_step:
  "entropy_coefficient ((update_hyperparameters ^^ Suc N) L)
     = round_double (entropy_decay L * entropy_coefficient ((update_hyperparameters ^^ N) L))"
  by (simp add: update_hyperparameters_fields entropy_decay_iterated double_mul_def)

lemma entropy_coefficient_invariant:
  assumes "0 \<le> entropy_decay L" and "0 \<le> entropy_coefficient L"
    and "round_double (entropy_coefficient L) = entropy_coefficient L"
  shows "0 \<le> entropy_coefficient ((update_hyperparameters ^^ N) L)
       \<and> round_double (entropy_coefficient ((update_hyperparameters ^^ N) L))
           = entropy_coefficient ((update_hyperparameters ^^ N) L)"
proof (induction N)
  case 0
  then show ?case using assms by simp
next
  case (Suc N)
  let ?p = "entropy_decay L * entropy_coefficient ((update_hyperparameters ^^ N) L)"
  have p: "0 \<le> ?p" using assms(1) Suc by simp
  show ?case
    unfolding entropy_coefficient_step
    using round_double_nonneg [OF p] round_double_idem [OF p] by simp
qed

lemma round_double_quarter: "round_double (1 / 4) = 1 / 4"
proof -
  have "(2::real) powr of_int (- 2) = 1 / 4" by (simp add: powr_minus_divide)
  then have q: "of_int (2 ^ 52) * 2 powr of_int (- 2 - 52) = (1 / 4 :: real)"
    using scale_52 [of "- 2"] by simp
  have "round_double (of_int (2 ^ 52) * 2 powr of_int (- 2 - 52))
      = of_int (2 ^ 52) * 2 powr of_int (- 2 - 52)"
    by (rule round_double_grid) simp_all
  then show ?thesis unfolding q .
qed

lemma round_double_small_power: "round_double (1 / 2 ^ 600) = 1 / 2 ^ 600"
proof -
  have "(2::real) powr of_int (- 600) = 1 / 2 ^ 600" by (simp add: powr_minus_divide)
  then have q: "of_int (2 ^ 52) * 2 powr of_int (- 600 - 52) = (1 / 2 ^ 600 :: real)"
    using scale_52 [of "- 600"] by simp
  have "round_double (of_int (2 ^ 52) * 2 powr of_int (- 600 - 52))
      = of_int (2 ^ 52) * 2 powr of_int (- 600 - 52)"
    by (rule round_double_grid) simp_all
  then show ?thesis unfolding q .
qed

text \<open>
  Claim C9, as stated: with a decay factor d strictly between 0 and 1 and a positive
  initial coefficient c, the entropy coefficient after N updates is \<open>c * d ^ N\<close>, strictly
  decreasing and never zero. The update multiplies doubles: with d and c both the double
  \<open>2 ^ -600\<close> the exact product \<open>2 ^ -1200\<close> lies below half the smallest subnormal
  number, and the coefficient after one update is exactly 0.
\<close>

theorem entropy_coefficient_underflow:
  "0 < entropy_decay ((toy_learner None 16 64)
         \<lparr>entropy_coefficient := 1 / 2 ^ 600, entropy_decay := 1 / 2 ^ 600\<rparr>)
   \<and> entropy_decay ((toy_learner None 16 64)
         \<lparr>entropy_coefficient := 1 / 2 ^ 600, entropy_decay := 1 / 2 ^ 600\<rparr>) < 1
   \<and> 0 < entropy_coefficient ((toy_learner None 16 64)
         \<lparr>entropy_coefficient := 1 / 2 ^ 600, entropy_decay := 1 / 2 ^ 600\<rparr>)
   \<and> entropy_coefficient (update_hyperparameters ((toy_learner None 16 64)
         \<lparr>entropy_coefficient := 1 / 2 ^ 600, entropy_decay := 1 / 2 ^ 600\<rparr>)) = 0
   \<and> 1 / 2 ^ 600 * (1 / 2 ^ 600) ^ 1 \<noteq> (0::real)
   \<and> round_double (1 / 2 ^ 600) = 1 / 2 ^ 600"
proof -
  have "(2::real) powr of_int (- 1075) = 1 / 2 ^ 1075"
    by (simp add: powr_minus_divide)
  moreover have "(1 / 2 ^ 600 * (1 / 2 ^ 600) :: real) < 1 / 2 ^ 1075" by simp
  ultimately have "(1 / 2 ^ 600 * (1 / 2 ^ 600) :: real) < 2 powr of_int (- 1075)" by simp
  then have "round_double (1 / 2 ^ 600 * (1 / 2 ^ 600)) = 0"
    by (intro round_double_underflow) simp_all
  then show ?thesis
    using round_double_small_power
    by (simp add: update_hyperparameters_fields double_mul_def toy_learner_def)
qed

text \<open>
  Claim C9, amended. With a decay factor d strictly between 0 and 1 and an initial
  coefficient c that is a positive double, every update replaces the entropy coefficient
  by the double nearest to d times its current value, which differs from the exact
  product by at most half a unit in the last place; the sequence of coefficients never
  increases and is never negative.
\<close>

theorem entropy_coefficient_decay_rounded:
  assumes "0 < entropy_decay L" and "entropy_decay L < 1" and "0 < entropy_coefficient L"
    and "round_double (entropy_coefficient L) = entropy_coefficient L"
  shows "entropy_coefficient ((update_hyperparameters ^^ Suc N) L)
           = round_double (entropy_decay L
               * entropy_coefficient ((update_hyperparameters ^^ N) L))
       \<and> \<bar>entropy_coefficient ((update_hyperparameters ^^ Suc N) L)
            - entropy_decay L * entropy_coefficient ((update_hyperparameters ^^ N) L)\<bar>
           \<le> 2 powr of_int (binade (entropy_decay L
                 * entropy_coefficient ((update_hyperparameters ^^ N) L)) - 53)
       \<and> entropy_coefficient ((update_hyperparameters ^^ Suc N) L)
           \<le> entropy_coefficient ((update_hyperparameters ^^ N) L)
       \<and> 0 \<le> entropy_coefficient ((update_hyperparameters ^^ N) L)"
proof -
  let ?c = "entropy_coefficient ((update_hyperparameters ^^ N) L)"
  let ?d = "entropy_decay L"
  have inv: "0 \<le> ?c \<and> round_double ?c = ?c"
    using assms by (intro entropy_coefficient_invariant) simp_all
  then have c: "0 \<le> ?c" and fixed: "round_double ?c = ?c" by simp_all
  have p: "0 \<le> ?d * ?c" using assms(1) c by simp
  have "?d * ?c \<le> 1 * ?c" using assms(2) c by (intro mult_right_mono) simp_all
  then have le: "?d * ?c \<le> ?c" by simp
  have "round_double (?d * ?c) \<le> round_double ?c"
    using p le by (rule round_double_mono)
  then have dec: "round_double (?d * ?c) \<le> ?c" unfolding fixed .
  show ?thesis
    unfolding entropy_coefficient_step
    using dec c round_double_error [of "?d * ?c"] by simp
qed

theorem entropy_coefficient_decay_rounded_witness:
  "entropy_coefficient ((update_hyperparameters ^^ Suc 1)
       ((toy_learner None 16 64)\<lparr>entropy_coefficient := 1 / 4, entropy_decay := 1 / 2\<rparr>))
     \<le> entropy_coefficient ((update_hyperparameters ^^ 1)
       ((toy_learner None 16 64)\<lparr>entropy_coefficient := 1 / 4, entropy_decay := 1 / 2\<rparr>))
   \<and> 0 \<le> entropy_coefficient ((update_hyperparameters ^^ 1)
       ((toy_learner None 16 64)\<lparr>entropy_coefficient := 1 / 4, entropy_decay := 1 / 2\<rparr>))
   \<and> round_double (entropy_coefficient
       ((toy_learner None 16 64)\<lparr>entropy_coefficient := 1 / 4, entropy_decay := 1 / 2\<rparr>))
     = 1 / 4"
proof -
  let ?L = "(toy_learner None 16 64)\<lparr>entropy_coefficient := 1 / 4, entropy_decay := 1 / 2\<rparr>"
  have h1: "0 < entropy_decay ?L" and h2: "entropy_decay ?L < 1"
    and h3: "0 < entropy_coefficient ?L"
    by (simp_all add: toy_learner_def)
  have h4: "round_double (entropy_coefficient ?L) = entropy_coefficient ?L"
    by (simp add: toy_learner_def round_double_quarter)
  have v: "entropy_coefficient ?L = 1 / 4" by (simp add: toy_learner_def)
  from entropy_coefficient_decay_rounded [OF h1 h2 h3 h4, of 1] h4 v
  show ?thesis by simp
qed

section \<open>Discounted returns\<close>

lemma discount_loop_returns:
  "k \<le> length rewards \<Longrightarrow>
   discount_loop g rewards (rev [0..<k]) (case returns g rs of [] \<Rightarrow> 0 | d # ds \<Rightarrow> d) (returns g rs)
     = Inr (returns g (take k rewards @ rs))"
proof (induction k arbitrary: rs)
  case 0
  then show ?case by simp
next
  case (Suc k)
  then have k: "k < length rewards" by simp
  have "take (Suc k) rewards = take k rewards @ [rewards ! k]"
    using k by (simp add: take_Suc_conv_app_nth)
  moreover have "discount_loop g rewards (rev [0..<k])
        (case returns g (rewards ! k # rs) of [] \<Rightarrow> 0 | d # ds \<Rightarrow> d) (returns g (rewards ! k # rs))
      = Inr (returns g (take k rewards @ rewards ! k # rs))"
    using Suc.IH [of "rewards ! k # rs"] k by simp
  ultimately show ?case using k by (simp add: Let_def)
qed

lemma length_returns: "length (returns g rs) = length rs"
  by (induction rs) simp_all

lemma returns_nth:
  "t < length rs \<Longrightarrow>
   returns g rs ! t = rs ! t + g * (if Suc t < length rs then returns g rs ! Suc t else 0)"
proof (induction rs arbitrary: t)
  case Nil
  then show ?case by simp
next
  case (Cons r rs)
  show ?case
  proof (cases t)
    case 0
    then show ?thesis by (cases rs) simp_all
  next
    case (Suc u)
    then show ?thesis using Cons by simp
  qed
qed

lemma calculate_discounted_rewards_returns:
  "nat (n_steps_per_trajectory L) \<le> length rewards \<Longrightarrow>
   calculate_discounted_rewards rewards L
     = Inr (returns (discount L) (take (nat (n_steps_per_trajectory L)) rewards))"
  using discount_loop_returns [of "nat (n_steps_per_trajectory L)" rewards "discount L" "[]"]
  by (simp add: calculate_discounted_rewards_def)

text \<open>
  Claim C4. For a horizon H of at least 1 and a reward sequence with at least H rewards,
  \<open>calculate_discounted_rewards\<close> returns a sequence G of length exactly H with
  \<open>G ! t = r ! t + discount * G ! (t + 1)\<close> for every \<open>t < H\<close>, where the return after
  the last one counts as 0; the rewards from position H on do not contribute.
\<close>

theorem calculate_discounted_rewards_recurrence:
  assumes "1 \<le> n_steps_per_trajectory L"
    and "nat (n_steps_per_trajectory L) \<le> length rewards"
  shows "\<exists>G. calculate_discounted_rewards rewards L = Inr G
           \<and> int (length G) = n_steps_per_trajectory L
           \<and> (\<forall>t. t < length G \<longrightarrow>
                 G ! t = rewards ! t + discount L * (if Suc t < length G then G ! Suc t else 0))
           \<and> calculate_discounted_rewards (take (nat (n_steps_per_trajectory L)) rewards) L = Inr G"
proof -
  let ?H = "nat (n_steps_per_trajectory L)"
  let ?G = "returns (discount L) (take ?H rewards)"
  have len: "length ?G = ?H" using assms(2) by (simp add: length_returns)
  have "calculate_discounted_rewards rewards L = Inr ?G"
    using assms(2) by (rule calculate_discounted_rewards_returns)
  moreover have "int (length ?G) = n_steps_per_trajectory L"
    using assms(1) len by simp
  moreover have "\<forall>t. t < length ?G \<longrightarrow>
      ?G ! t = rewards ! t + discount L * (if Suc t < length ?G then ?G ! Suc t else 0)"
  proof (intro allI impI)
    fix t assume t: "t < length ?G"
    then have "t < length (take ?H rewards)" by (simp add: length_returns)
    from returns_nth [OF this, of "discount L"] t len assms(2)
    show "?G ! t = rewards ! t + discount L * (if Suc t < length ?G then ?G ! Suc t else 0)"
      by (simp add: length_returns)
  qed
  moreover have "calculate_discounted_rewards (take ?H rewards) L = Inr ?G"
    using calculate_discounted_rewards_returns [of L "take ?H rewards"] assms(2) by simp
  ultimately show ?thesis by blast
qed

theorem calculate_discounted_rewards_recurrence_witness:
  "\<exists>G. calculate_discounted_rewards [1, 2, 3] (toy_learner None 2 1) = Inr G
           \<and> int (length G) = n_steps_per_trajectory (toy_learner None 2 1)
           \<and> (\<forall>t. t < length G \<longrightarrow>
                 G ! t = [1, 2, 3] ! t
                   + discount (toy_learner None 2 1) * (if Suc t < length G then G ! Suc t else 0))
           \<and> calculate_discounted_rewards
                 (take (nat (n_steps_per_trajectory (toy_learner None 2 1))) [1, 2, 3])
                 (toy_learner None 2 1) = Inr G"
  using calculate_discounted_rewards_recurrence [of "toy_learner None 2 1" "[1, 2, 3]"]
  by (simp add: toy_learner_def)

section \<open>Performance tracking and reversion\<close>






text \<open>
  Claim C2. The claim has the live policy and the best-policy snapshot never share storage.
  A snapshot is an independent copy, but a reversion assigns the snapshot's reference to
  the live policy: after the mean rewards 10 and 1 the two are the same object, and
  changing the parameters of the live policy changes the ones read through the snapshot.
\<close>

theorem reversion_aliases_best_policy:
  "(let L1 = track_performance [10] (toy_learner None 16 64);
        L2 = track_performance [1] L1;
        L3 = mutate_parameters (policy L2) (\<lambda>w. w + 1) L2 in
      policy L1 \<noteq> best_policy L1
      \<and> policy L2 = best_policy L2
      \<and> weights (heap L2 (best_policy L2)) = 0
      \<and> best_policy L3 = best_policy L2
      \<and> weights (heap L3 (best_policy L3)) = 1)"
  by (simp add: Let_def track_performance_def mutate_parameters_def toy_learner_def
      toy_network_def)

section \<open>Construction\<close>

text \<open>
  Claim C8, as stated: construction rejects a horizon below 1, a batch size below 1 and a
  negative coefficient. The constructor checks none of them: with horizon 0, batch size 0
  and both coefficients \<open>-1\<close> it returns a learner.
\<close>

theorem PPOLearner_init_accepts_invalid:
  "PPOLearner_init toy_externals toy_environment 1 1 [0 \<mapsto> 1] [4] [4] None
       0 0 5 50 (25 / 100000) (99 / 100) (1 / 10) (- 1) (- 1) (999 / 1000)
       (2 / 10) (99 / 100) (1 / 10) 0
     = Inr ((toy_learner None 0 0)\<lparr>critic_coefficient := - 1, entropy_coefficient := - 1\<rparr>)"
  by (simp add: PPOLearner_init_def ActorCritic_init_def hidden_layers_def toy_externals_def
      toy_learner_def toy_network_def)

text \<open>
  Claim C8, amended. Construction does not check the horizon, the batch size or the
  coefficients: with arguments that the seeding, the network constructor and the optimizer
  accept (a seed from 0 to \<open>2 ^ 32 - 1\<close>, positive dimensions, non-empty lists of
  positive hidden-layer widths, a learning rate that is not negative), it succeeds for
  every horizon, batch size, critic coefficient and entropy coefficient and stores them as
  given.
\<close>

theorem PPOLearner_init_unchecked_arguments:
  assumes "actor_hidden_layer_units \<noteq> []" and "critic_hidden_layer_units \<noteq> []"
    and "list_all (\<lambda>u. 0 < u) actor_hidden_layer_units"
    and "list_all (\<lambda>u. 0 < u) critic_hidden_layer_units"
    and "0 < state_space_dimension" and "0 < action_space_dimension"
    and "0 \<le> learning_rate"
    and "0 \<le> seed_arg" and "seed_arg < 2 ^ 32"
  shows "\<exists>L. PPOLearner_init X env state_space_dimension action_space_dimension amap
              critic_hidden_layer_units actor_hidden_layer_units box
              n_steps n_trajectories epochs iterations
              learning_rate discount_arg clipping critic_coef entropy_coef entropy_dec
              rev_threshold rev_threshold_decay min_rev_threshold seed_arg = Inr L
           \<and> n_steps_per_trajectory L = n_steps
           \<and> n_trajectories_per_batch L = n_trajectories
           \<and> critic_coefficient L = critic_coef
           \<and> entropy_coefficient L = entropy_coef"
proof -
  have a: "\<not> list_ex (\<lambda>u. u < 0) actor_hidden_layer_units"
    using assms(3) by (auto simp add: list_ex_iff list_all_iff)
  have c: "\<not> list_ex (\<lambda>u. u < 0) critic_hidden_layer_units"
    using assms(4) by (auto simp add: list_ex_iff list_all_iff)
  have s: "\<not> (seed_arg < - (2 ^ 63) \<or> 2 ^ 64 - 1 < seed_arg)"
    "\<not> (seed_arg < 0 \<or> 2 ^ 32 - 1 < seed_arg)"
    using assms(8,9) by simp_all
  have d: "\<not> state_space_dimension < 0" "\<not> action_space_dimension < 0"
    "\<not> learning_rate < 0"
    using assms(5,6,7) by simp_all
  show ?thesis
    unfolding PPOLearner_init_def ActorCritic_init_def
    by (simp only: s a c d assms(1,2) if_False simp_thms) (simp split: prod.splits)
qed

theorem PPOLearner_init_unchecked_arguments_witness:
  "\<exists>L. PPOLearner_init toy_externals toy_environment 1 1 [0 \<mapsto> 1] [4] [4] None
              (- 3) 0 5 50 (25 / 100000) (99 / 100) (1 / 10) 1 (- 1) (999 / 1000)
              (2 / 10) (99 / 100) (1 / 10) 0 = Inr L
           \<and> n_steps_per_trajectory L = - 3
           \<and> n_trajectories_per_batch L = 0
           \<and> critic_coefficient L = 1
           \<and> entropy_coefficient L = - 1"
  using PPOLearner_init_unchecked_arguments [of "[4]" "[4]" 1 1 "25 / 100000" 0
      toy_externals toy_environment "[0 \<mapsto> 1]" None "- 3" 0 5 50 "99 / 100" "1 / 10" 1 "- 1"
      "999 / 1000" "2 / 10" "99 / 100" "1 / 10"]
  by simp

lemma PPOLearner_init_library_errors:
  "PPOLearner_init toy_externals toy_environment 1 1 [0 \<mapsto> 1] [4] [4] None
       0 0 5 50 (- 1) (99 / 100) (1 / 10) (- 1) (- 1) (999 / 1000)
       (2 / 10) (99 / 100) (1 / 10) 0 = Inl ValueError"
  "PPOLearner_init toy_externals toy_environment 1 1 [0 \<mapsto> 1] [4] [4] None
       0 0 5 50 1 (99 / 100) (1 / 10) (- 1) (- 1) (999 / 1000)
       (2 / 10) (99 / 100) (1 / 10) (2 ^ 32) = Inl ValueError"
  "PPOLearner_init toy_externals toy_environment (- 1) 1 [0 \<mapsto> 1] [4] [4] None
       0 0 5 50 1 (99 / 100) (1 / 10) (- 1) (- 1) (999 / 1000)
       (2 / 10) (99 / 100) (1 / 10) 0 = Inl RuntimeError"
  "PPOLearner_init toy_externals toy_environment 1 1 [0 \<mapsto> 1] [] [4] None
       0 0 5 50 1 (99 / 100) (1 / 10) (- 1) (- 1) (999 / 1000)
       (2 / 10) (99 / 100) (1 / 10) 0 = Inl IndexError"
  by (simp_all add: PPOLearner_init_def ActorCritic_init_def hidden_layers_def toy_externals_def)

section \<open>Trajectory generation\<close>


lemma rollout_result:
  "rollout X n state states rewards L = Inr ((states', rewards'), L') \<Longrightarrow>
   n_steps_per_trajectory L' = n_steps_per_trajectory L
   \<and> n_trajectories_per_batch L' = n_trajectories_per_batch L
   \<and> discount L' = discount L
   \<and> mean_rewards L' = mean_rewards L
   \<and> length states' = length states + n \<and> length rewards' = length rewards + n"
proof (induction n arbitrary: state states rewards L)
  case 0
  then show ?case by auto
next
  case (Suc n)
  from Suc.prems obtain action g new_state reward env where
    rest: "rollout X n new_state (states @ [state]) (rewards @ [reward])
                 (L\<lparr>environment := env, rng := g\<rparr>) = Inr ((states', rewards'), L')"
    by (auto split: sum.splits prod.splits)
  from Suc.IH [OF rest] show ?case by simp
qed

lemma calculate_discounted_rewards_length:
  assumes "calculate_discounted_rewards rewards L = Inr drs"
    and "nat (n_steps_per_trajectory L) \<le> length rewards"
  shows "length drs = nat (n_steps_per_trajectory L)"
  using assms calculate_discounted_rewards_returns [OF assms(2)]
  by (auto simp add: length_returns)

lemma generate_trajectory_result:
  assumes "generate_trajectory X L = Inr ((states, rewards, drs), L')"
  shows "\<exists>e. environment L' = env_reset X (e\<lparr>init := init (environment L)\<rparr>)"
    and "n_steps_per_trajectory L' = n_steps_per_trajectory L"
    and "n_trajectories_per_batch L' = n_trajectories_per_batch L"
    and "discount L' = discount L"
    and "mean_rewards L' = mean_rewards L"
    and "length rewards = nat (n_steps_per_trajectory L + 1)"
    and "length states = nat (n_steps_per_trajectory L + 1) - 1"
    and "length drs = nat (n_steps_per_trajectory L)"
proof -
  define start where "start =
      (if randomize_init_state L then
         (case random_init_box L of
            None \<Rightarrow> Inl AttributeError
          | Some box \<Rightarrow>
              (let (state, g) = box_sample X box (rng L)
               in Inr (state, L\<lparr>environment :=
                                  env_reset X ((environment L)\<lparr>init := state\<rparr>),
                                rng := g\<rparr>)))
       else Inr (init (environment L), L))"
  have unfolded: "generate_trajectory X L =
      (case start of
         Inl e \<Rightarrow> Inl e
       | Inr (state, L1) \<Rightarrow>
           (case rollout X (nat (n_steps_per_trajectory L1 + 1)) state [] [] L1 of
              Inl e \<Rightarrow> Inl e
            | Inr ((states, rewards), L2) \<Rightarrow>
                (case calculate_discounted_rewards rewards
                        (L2\<lparr>environment :=
                              env_reset X ((environment L2)\<lparr>init := init (environment L)\<rparr>)\<rparr>) of
                   Inl e \<Rightarrow> Inl e
                 | Inr discounted_rewards \<Rightarrow>
                     Inr ((butlast states, rewards, discounted_rewards),
                          L2\<lparr>environment :=
                               env_reset X ((environment L2)\<lparr>init := init (environment L)\<rparr>)\<rparr>))))"
    unfolding generate_trajectory_def start_def Let_def ..
  from assms unfolded obtain state L1 where s: "start = Inr (state, L1)"
    by (cases start) auto
  have start: "n_steps_per_trajectory L1 = n_steps_per_trajectory L
      \<and> n_trajectories_per_batch L1 = n_trajectories_per_batch L
      \<and> discount L1 = discount L \<and> mean_rewards L1 = mean_rewards L"
  proof (cases "randomize_init_state L")
    case True
    with s obtain box where "random_init_box L = Some box"
      unfolding start_def by (cases "random_init_box L") auto
    with s True show ?thesis
      unfolding start_def by (cases "box_sample X box (rng L)") auto
  next
    case False
    with s show ?thesis unfolding start_def by simp
  qed
  from assms s obtain states0 rewards0 L2 where
    roll: "rollout X (nat (n_steps_per_trajectory L1 + 1)) state [] [] L1
                 = Inr ((states0, rewards0), L2)"
    unfolding unfolded
    by (cases "rollout X (nat (n_steps_per_trajectory L1 + 1)) state [] [] L1") auto
  define L3 where
    "L3 = L2\<lparr>environment := env_reset X ((environment L2)\<lparr>init := init (environment L)\<rparr>)\<rparr>"
  from assms s roll have fin: "calculate_discounted_rewards rewards0 L3 = Inr drs
      \<and> L' = L3 \<and> states = butlast states0 \<and> rewards = rewards0"
    unfolding unfolded
    by (cases "calculate_discounted_rewards rewards0 L3") (simp_all add: L3_def)
  then have calc: "calculate_discounted_rewards rewards L3 = Inr drs"
    and final: "L' = L3" and st: "states = butlast states0" and rw: "rewards0 = rewards"
    by simp_all
  note r = rollout_result [OF roll [unfolded rw]]
  show "\<exists>e. environment L' = env_reset X (e\<lparr>init := init (environment L)\<rparr>)"
    unfolding final L3_def by (rule exI [of _ "environment L2"]) simp
  show n: "n_steps_per_trajectory L' = n_steps_per_trajectory L"
    unfolding final L3_def using r start by simp
  show "n_trajectories_per_batch L' = n_trajectories_per_batch L"
    unfolding final L3_def using r start by simp
  show "discount L' = discount L"
    unfolding final L3_def using r start by simp
  show "mean_rewards L' = mean_rewards L"
    unfolding final L3_def using r start by simp
  show lr: "length rewards = nat (n_steps_per_trajectory L + 1)" using r start by simp
  show "length states = nat (n_steps_per_trajectory L + 1) - 1" using r start st by simp
  have "length drs = nat (n_steps_per_trajectory L3)"
    using calc
  proof (rule calculate_discounted_rewards_length)
    show "nat (n_steps_per_trajectory L3) \<le> length rewards"
      using lr n unfolding final by simp
  qed
  then show "length drs = nat (n_steps_per_trajectory L)"
    using n unfolding final by simp
qed


text \<open>
  Claim C7. Whenever \<open>generate_trajectory\<close> returns, the environment's \<open>init\<close> is what
  it was before the call, with and without a randomized initial state: the value read at
  the start is assigned back before the final \<open>reset()\<close>. The environment is external;
  what is assumed of it is that its \<open>reset\<close> does not change \<open>init\<close>.
\<close>

theorem generate_trajectory_restores_init:
  assumes "generate_trajectory X L = Inr (tr, L')"
    and "\<And>e. init (env_reset X e) = init e"
  shows "init (environment L') = init (environment L)"
proof -
  obtain states rewards drs where "tr = (states, rewards, drs)" by (cases tr)
  with assms(1) have "generate_trajectory X L = Inr ((states, rewards, drs), L')" by simp
  from generate_trajectory_result(1) [OF this]
  obtain e where "environment L' = env_reset X (e\<lparr>init := init (environment L)\<rparr>)" ..
  then show ?thesis by (simp add: assms(2))
qed

lemma toy_trajectory_randomized:
  "generate_trajectory toy_externals (toy_learner (Some 5) 2 1)
     = Inr (([5, 6], [6, 7, 8], [1293 / 100, 7]),
            (toy_learner (Some 5) 2 1)\<lparr>environment := \<lparr>init = 0, hidden = 0\<rparr>, rng := 4\<rparr>)"
  by (simp add: generate_trajectory_def calculate_discounted_rewards_def sample_action_def
      toy_externals_def toy_learner_def toy_environment_def toy_network_def eval_nat_numeral)

theorem generate_trajectory_restores_init_witness:
  "generate_trajectory toy_externals (toy_learner (Some 5) 2 1)
     = Inr (([5, 6], [6, 7, 8], [1293 / 100, 7]),
            (toy_learner (Some 5) 2 1)\<lparr>environment := \<lparr>init = 0, hidden = 0\<rparr>, rng := 4\<rparr>)
   \<and> (\<forall>e. init (env_reset toy_externals e) = init e)
   \<and> init (environment ((toy_learner (Some 5) 2 1)\<lparr>environment := \<lparr>init = 0, hidden = 0\<rparr>, rng := 4\<rparr>))
       = init (environment (toy_learner (Some 5) 2 1))"
proof -
  have frame: "\<And>e. init (env_reset toy_externals e) = init e"
    by (simp add: toy_externals_def)
  from generate_trajectory_restores_init [OF toy_trajectory_randomized frame]
  show ?thesis using toy_trajectory_randomized frame by blast
qed

section \<open>Batch aggregation\<close>

lemma generate_trajectories_result:
  "generate_trajectories X n L = Inr (trs, L') \<Longrightarrow>
   length trs = n
   \<and> n_steps_per_trajectory L' = n_steps_per_trajectory L
   \<and> n_trajectories_per_batch L' = n_trajectories_per_batch L
   \<and> mean_rewards L' = mean_rewards L
   \<and> (\<forall>tr \<in> set trs.
         length (fst tr) = nat (n_steps_per_trajectory L + 1) - 1
         \<and> length (fst (snd tr)) = nat (n_steps_per_trajectory L + 1)
         \<and> length (snd (snd tr)) = nat (n_steps_per_trajectory L))"
proof (induction n arbitrary: L trs)
  case 0
  then show ?case by simp
next
  case (Suc n)
  from Suc.prems obtain tr L1 where
    first: "generate_trajectory X L = Inr (tr, L1)"
    by (cases "generate_trajectory X L") auto
  with Suc.prems obtain rest where
    more: "generate_trajectories X n L1 = Inr (rest, L')" and trs: "trs = tr # rest"
    by (cases "generate_trajectories X n L1") auto
  obtain states rewards drs where tr: "tr = (states, rewards, drs)" by (cases tr)
  note g = generate_trajectory_result [OF first [unfolded tr]]
  from Suc.IH [OF more] g show ?case by (simp add: trs tr)
qed

lemma length_concat_uniform:
  "(\<forall>xs \<in> set xss. length xs = n) \<Longrightarrow> length (concat xss) = length xss * n"
  by (induction xss) simp_all

lemma concat_nth_uniform:
  "(\<forall>xs \<in> set xss. length xs = n) \<Longrightarrow> i < length xss \<Longrightarrow> t < n \<Longrightarrow>
   concat xss ! (i * n + t) = xss ! i ! t"
proof (induction xss arbitrary: i)
  case Nil
  then show ?case by simp
next
  case (Cons xs xss)
  show ?case
  proof (cases i)
    case 0
    with Cons.prems show ?thesis by (simp add: nth_append)
  next
    case (Suc j)
    with Cons.prems have "concat xss ! (j * n + t) = xss ! j ! t"
      by (intro Cons.IH) simp_all
    moreover have "Suc j * n + t = length xs + (j * n + t)"
      using Cons.prems by simp
    ultimately show ?thesis using Suc by (simp only: concat.simps nth_append_length_plus nth_Cons_Suc)
  qed
qed

lemma generate_batch_result:
  assumes "generate_batch X L = Inr ((states, rewards, drs), L')"
  shows "\<exists>trs. generate_trajectories X (nat (n_trajectories_per_batch L)) L = Inr (trs, L')
           \<and> trs \<noteq> []
           \<and> states = concat (map fst trs)
           \<and> rewards = concat (map (\<lambda>tr. fst (snd tr)) trs)
           \<and> drs = concat (map (\<lambda>tr. snd (snd tr)) trs)"
proof -
  from assms obtain trs L1 where
    g: "generate_trajectories X (nat (n_trajectories_per_batch L)) L = Inr (trs, L1)"
    unfolding generate_batch_def
    by (cases "generate_trajectories X (nat (n_trajectories_per_batch L)) L") auto
  with assms show ?thesis
    unfolding generate_batch_def concatenate_lists_def
    by (cases "trs = []") simp_all
qed



lemma toy_trajectory:
  "generate_trajectory toy_externals ((toy_learner None 1 2)\<lparr>rng := g\<rparr>)
     = Inr (([0], [1, 2], [1]), (toy_learner None 1 2)\<lparr>rng := Suc (Suc g)\<rparr>)"
  by (simp add: generate_trajectory_def calculate_discounted_rewards_def sample_action_def
      toy_externals_def toy_learner_def toy_environment_def toy_network_def eval_nat_numeral)

lemma toy_batch:
  "generate_batch toy_externals ((toy_learner None 1 2)\<lparr>rng := 0\<rparr>)
     = Inr (([0, 0], [1, 2, 1, 2], [1, 1]), (toy_learner None 1 2)\<lparr>rng := 4\<rparr>)"
proof -
  have two: "nat (n_trajectories_per_batch ((toy_learner None 1 2)\<lparr>rng := 0\<rparr>)) = Suc (Suc 0)"
    by (simp add: toy_learner_def)
  have "generate_trajectories toy_externals (Suc (Suc 0)) ((toy_learner None 1 2)\<lparr>rng := 0\<rparr>)
      = Inr ([([0], [1, 2], [1]), ([0], [1, 2], [1])], (toy_learner None 1 2)\<lparr>rng := 4\<rparr>)"
    by (simp add: toy_trajectory eval_nat_numeral)
  then show ?thesis
    unfolding generate_batch_def two by (simp add: concatenate_lists_def)
qed


text \<open>
  Claim C10. A trajectory of horizon H returns H + 1 rewards, one more than its H states
  and H discounted returns. A batch of B trajectories therefore has B * (H + 1) rewards,
  among them the reward of step H of every trajectory, and the mean reward that the
  tracker appends to the history is their sum divided by B * (H + 1).
\<close>

theorem rewards_include_terminal_step:
  "(generate_trajectory X L = Inr ((states, rewards, drs), L') \<and> 0 \<le> n_steps_per_trajectory L \<longrightarrow>
      length rewards = nat (n_steps_per_trajectory L) + 1
      \<and> length states = nat (n_steps_per_trajectory L)
      \<and> length drs = nat (n_steps_per_trajectory L))
   \<and> (generate_batch X L = Inr ((bstates, brewards, bdrs), L'') \<and> 0 \<le> n_steps_per_trajectory L \<longrightarrow>
      (\<exists>trs. generate_trajectories X (nat (n_trajectories_per_batch L)) L = Inr (trs, L'')
         \<and> length trs = nat (n_trajectories_per_batch L)
         \<and> length bstates = nat (n_trajectories_per_batch L) * nat (n_steps_per_trajectory L)
         \<and> length brewards
             = nat (n_trajectories_per_batch L) * (nat (n_steps_per_trajectory L) + 1)
         \<and> (\<forall>i. i < nat (n_trajectories_per_batch L) \<longrightarrow>
               brewards ! (i * (nat (n_steps_per_trajectory L) + 1) + nat (n_steps_per_trajectory L))
                 = fst (snd (trs ! i)) ! nat (n_steps_per_trajectory L))
         \<and> mean_rewards (track_performance brewards L'')
             = mean_rewards L
               @ [Num (sum_list brewards
                   / real (nat (n_trajectories_per_batch L) * (nat (n_steps_per_trajectory L) + 1)))]))"
proof (intro conjI impI)
  assume a: "generate_trajectory X L = Inr ((states, rewards, drs), L') \<and> 0 \<le> n_steps_per_trajectory L"
  then have g: "generate_trajectory X L = Inr ((states, rewards, drs), L')"
    and h: "0 \<le> n_steps_per_trajectory L" by simp_all
  from generate_trajectory_result(6,7,8) [OF g] h
  show "length rewards = nat (n_steps_per_trajectory L) + 1"
    and "length states = nat (n_steps_per_trajectory L)"
    and "length drs = nat (n_steps_per_trajectory L)"
    by (simp_all add: nat_add_distrib)
next
  let ?B = "nat (n_trajectories_per_batch L)" and ?H = "nat (n_steps_per_trajectory L)"
  assume a: "generate_batch X L = Inr ((bstates, brewards, bdrs), L'') \<and> 0 \<le> n_steps_per_trajectory L"
  then have b: "generate_batch X L = Inr ((bstates, brewards, bdrs), L'')"
    and h: "0 \<le> n_steps_per_trajectory L" by simp_all
  from generate_batch_result [OF b] obtain trs where
    g: "generate_trajectories X ?B L = Inr (trs, L'')"
    and ne: "trs \<noteq> []"
    and st: "bstates = concat (map fst trs)"
    and rw: "brewards = concat (map (\<lambda>tr. fst (snd tr)) trs)" by blast
  from generate_trajectories_result [OF g] h have
    len: "length trs = ?B"
    and hist: "mean_rewards L'' = mean_rewards L"
    and each: "\<forall>tr \<in> set trs. length (fst tr) = ?H \<and> length (fst (snd tr)) = ?H + 1"
    by (simp_all add: nat_add_distrib)
  have us: "\<forall>xs \<in> set (map fst trs). length xs = ?H"
    and ur: "\<forall>xs \<in> set (map (\<lambda>tr. fst (snd tr)) trs). length xs = ?H + 1"
    using each by simp_all
  have ls: "length bstates = ?B * ?H"
    using length_concat_uniform [OF us] len st by simp
  have lr: "length brewards = ?B * (?H + 1)"
    using length_concat_uniform [OF ur] len rw by simp
  have last: "\<forall>i. i < ?B \<longrightarrow> brewards ! (i * (?H + 1) + ?H) = fst (snd (trs ! i)) ! ?H"
  proof (intro allI impI)
    fix i assume "i < ?B"
    then have i: "i < length trs" using len by simp
    have "concat (map (\<lambda>tr. fst (snd tr)) trs) ! (i * (?H + 1) + ?H)
        = map (\<lambda>tr. fst (snd tr)) trs ! i ! ?H"
      using ur i by (intro concat_nth_uniform) simp_all
    then show "brewards ! (i * (?H + 1) + ?H) = fst (snd (trs ! i)) ! ?H"
      using i rw by simp
  qed
  have "0 < length trs" using ne by simp
  then have "0 < ?B" unfolding len .
  then have "0 < length brewards" unfolding lr by simp
  then have "brewards \<noteq> []" by auto
  then obtain r rs where "brewards = r # rs" by (cases brewards) auto
  then have "np_mean brewards = Num (sum_list brewards / real (length brewards))" by simp
  then have "mean_rewards (track_performance brewards L'')
      = mean_rewards L @ [Num (sum_list brewards / real (?B * (?H + 1)))]"
    using hist lr by (simp add: track_performance_def Let_def del: np_mean.simps)
  with g len ls lr last
  show "\<exists>trs. generate_trajectories X ?B L = Inr (trs, L'')
         \<and> length trs = ?B
         \<and> length bstates = ?B * ?H
         \<and> length brewards = ?B * (?H + 1)
         \<and> (\<forall>i. i < ?B \<longrightarrow> brewards ! (i * (?H + 1) + ?H) = fst (snd (trs ! i)) ! ?H)
         \<and> mean_rewards (track_performance brewards L'')
             = mean_rewards L @ [Num (sum_list brewards / real (?B * (?H + 1)))]"
    by blast
qed


theorem rewards_include_terminal_step_witness:
  "generate_trajectory toy_externals ((toy_learner None 1 2)\<lparr>rng := 0\<rparr>)
     = Inr (([0], [1, 2], [1]), (toy_learner None 1 2)\<lparr>rng := Suc (Suc 0)\<rparr>)
   \<and> generate_batch toy_externals ((toy_learner None 1 2)\<lparr>rng := 0\<rparr>)
     = Inr (([0, 0], [1, 2, 1, 2], [1, 1]), (toy_learner None 1 2)\<lparr>rng := 4\<rparr>)
   \<and> 0 \<le> n_steps_per_trajectory ((toy_learner None 1 2)\<lparr>rng := 0\<rparr>)
   \<and> length [1, 2 :: real] = 1 + 1
   \<and> length [1, 2, 1, 2 :: real] = 2 * (1 + 1)
   \<and> mean_rewards (track_performance [1, 2, 1, 2] ((toy_learner None 1 2)\<lparr>rng := 4\<rparr>))
       = [Num (6 / 4)]"
proof -
  let ?L = "(toy_learner None 1 2)\<lparr>rng := 0\<rparr>"
  have h: "0 \<le> n_steps_per_trajectory ?L"
    by (simp add: toy_learner_def)
  have B: "nat (n_trajectories_per_batch ?L) = 2"
    and H: "nat (n_steps_per_trajectory ?L) = 1"
    and mr: "mean_rewards ?L = []"
    by (simp_all add: toy_learner_def)
  note inst = rewards_include_terminal_step
    [of toy_externals ?L "[0]" "[1, 2]" "[1]" "(toy_learner None 1 2)\<lparr>rng := Suc (Suc 0)\<rparr>"
        "[0, 0]" "[1, 2, 1, 2]" "[1, 1]" "(toy_learner None 1 2)\<lparr>rng := 4\<rparr>",
     unfolded B H mr]
  from inst toy_trajectory [of 0] toy_batch h show ?thesis by auto
qed

section \<open>The loss\<close>

lemma sum_list_map_uminus:
  "sum_list (map (\<lambda>x. - f x) xs) = - sum_list (map f xs)" for f :: "'v \<Rightarrow> real"
  by (induction xs) simp_all

lemma entropy_loss_mean:
  "concat policy_probabilities \<noteq> [] \<Longrightarrow>
   entropy_loss policy_probabilities
     = Some (sum_list (map (\<lambda>p. p * ln (p + TOL)) (concat policy_probabilities))
               / real (length (concat policy_probabilities)))"
  by (simp add: entropy_loss_def torch_mean_def map_concat [symmetric] del: map_concat)

lemma standard_entropy_negated:
  "- standard_entropy policy_probabilities
     = sum_list (map (\<lambda>p. p * ln (p + TOL)) (concat policy_probabilities))
         / real (length (concat policy_probabilities))"
  by (simp add: standard_entropy_def sum_list_map_uminus)

text \<open>
  Claim C6. The entropy term of the loss is the mean of \<open>p * log (p + TOL)\<close> over all
  entries of the probability tensor, which is the negative of the standard entropy, and
  the total loss is the actor loss plus the critic coefficient times the critic loss plus
  the entropy coefficient times that term, with this sign.
\<close>

theorem ppo_loss_entropy_term:
  assumes "actor_loss (clipping_param L) policy_probabilities old_policy_probabilities
             advantage_estimates = Some a"
    and "critic_loss discounted_rewards vals = Some c"
    and "concat policy_probabilities \<noteq> []"
  shows "entropy_loss policy_probabilities
           = Some (sum_list (map (\<lambda>p. p * ln (p + TOL)) (concat policy_probabilities))
                     / real (length (concat policy_probabilities)))
       \<and> entropy_loss policy_probabilities = Some (- standard_entropy policy_probabilities)
       \<and> ppo_loss L vals discounted_rewards policy_probabilities old_policy_probabilities
             advantage_estimates
           = Some (a + critic_coefficient L * c
                     + entropy_coefficient L
                       * (sum_list (map (\<lambda>p. p * ln (p + TOL)) (concat policy_probabilities))
                            / real (length (concat policy_probabilities))))
       \<and> ppo_loss L vals discounted_rewards policy_probabilities old_policy_probabilities
             advantage_estimates
           = Some (a + critic_coefficient L * c
                     - entropy_coefficient L * standard_entropy policy_probabilities)"
proof -
  let ?e = "sum_list (map (\<lambda>p. p * ln (p + TOL)) (concat policy_probabilities))
              / real (length (concat policy_probabilities))"
  have e: "entropy_loss policy_probabilities = Some ?e"
    using assms(3) by (rule entropy_loss_mean)
  have neg: "?e = - standard_entropy policy_probabilities"
    by (simp only: standard_entropy_negated)
  have loss: "ppo_loss L vals discounted_rewards policy_probabilities old_policy_probabilities
      advantage_estimates = Some (a + critic_coefficient L * c + entropy_coefficient L * ?e)"
    by (simp add: ppo_loss_def assms(1,2) e)
  have "a + critic_coefficient L * c + entropy_coefficient L * ?e
      = a + critic_coefficient L * c - entropy_coefficient L * standard_entropy policy_probabilities"
    unfolding neg by simp
  with e loss neg show ?thesis by simp
qed

theorem ppo_loss_entropy_term_witness:
  "actor_loss (clipping_param (toy_learner None 1 1)) [[1 / 2, 1 / 2]] [[1 / 2, 1 / 2]] [1]
     = Some (- 1)
   \<and> critic_loss [1] [0] = Some 1
   \<and> concat [[1 / 2, 1 / 2 :: real]] \<noteq> []
   \<and> entropy_loss [[1 / 2, 1 / 2]] = Some (- standard_entropy [[1 / 2, 1 / 2]])
   \<and> ppo_loss (toy_learner None 1 1) [0] [1] [[1 / 2, 1 / 2]] [[1 / 2, 1 / 2]] [1]
       = Some (- 1 + critic_coefficient (toy_learner None 1 1) * 1
                 - entropy_coefficient (toy_learner None 1 1) * standard_entropy [[1 / 2, 1 / 2]])"
proof -
  have a: "actor_loss (clipping_param (toy_learner None 1 1)) [[1 / 2, 1 / 2]] [[1 / 2, 1 / 2]] [1]
      = Some (- 1)"
    by (simp add: actor_loss_def ratio_def clamp_def torch_mean_def toy_learner_def)
  have c: "critic_loss [1] [0] = Some 1"
    by (simp add: critic_loss_def torch_mean_def)
  have n: "concat [[1 / 2, 1 / 2 :: real]] \<noteq> []" by simp
  from ppo_loss_entropy_term [OF a c n] a c n show ?thesis by blast
qed

end
